theory Spec2Isabelle
  imports Main "HOL-Library.Sublist"
begin

section \<open>User accounts\<close>

text \<open>
  The user model (the mongoose schema with its document methods). Times are
  milliseconds since the epoch, as \<^verbatim>\<open>Date.now()\<close> and the numeric value of a
  \<^verbatim>\<open>Date\<close> give them. Every clock reading taken while one method runs is the
  one instant \<open>now\<close>. A field the schema lets be \<^verbatim>\<open>null\<close> or absent is an option.
  The document methods write through \<^verbatim>\<open>updateOne\<close>; the model returns the stored
  record after the write, the handlers fetching the record anew on every
  request.
\<close>

datatype provider = Credentials | Google | GitHub

record user =
  user_id :: string
  email :: string
  password :: "string option"
  firstName :: string
  lastName :: string
  avatar :: string
  bio :: string
  provider :: "provider option"
  providerId :: "string option"
  emailVerified :: bool
  lastLogin :: "int option"
  loginAttempts :: nat
  lockUntil :: "int option"

definition MAX_LOGIN_ATTEMPTS :: nat where
  "MAX_LOGIN_ATTEMPTS = 5"

definition LOCK_TIME :: int where
  "LOCK_TIME = 2 * 60 * 60 * 1000"

text \<open>\<^verbatim>\<open>!this.password\<close>: an absent and an empty password are both falsy.\<close>

definition no_password :: "user \<Rightarrow> bool" where
  "no_password u = (case password u of None \<Rightarrow> True | Some h \<Rightarrow> h = [])"

text \<open>
  \<^verbatim>\<open>comparePassword\<close>: false without a stored hash, \<^verbatim>\<open>bcrypt.compare\<close> otherwise.
  The bcrypt comparison is the parameter \<open>cmp\<close> (candidate first, hash second).
\<close>

definition comparePassword :: "('p \<Rightarrow> string \<Rightarrow> bool) \<Rightarrow> user \<Rightarrow> 'p \<Rightarrow> bool" where
  "comparePassword cmp u candidate =
     (case password u of
        None \<Rightarrow> False
      | Some h \<Rightarrow> if h = [] then False else cmp candidate h)"

text \<open>\<^verbatim>\<open>isLocked\<close>: \<^verbatim>\<open>!!(this.lockUntil && this.lockUntil > new Date())\<close>.\<close>

definition isLocked :: "int \<Rightarrow> user \<Rightarrow> bool" where
  "isLocked now u = (case lockUntil u of None \<Rightarrow> False | Some t \<Rightarrow> t > now)"

text \<open>The guard of the first branch of \<^verbatim>\<open>incrementLoginAttempts\<close>:
  \<^verbatim>\<open>this.lockUntil && this.lockUntil < new Date()\<close>.\<close>

definition lock_expired :: "int \<Rightarrow> user \<Rightarrow> bool" where
  "lock_expired now u = (case lockUntil u of None \<Rightarrow> False | Some t \<Rightarrow> t < now)"

definition incrementLoginAttempts :: "int \<Rightarrow> user \<Rightarrow> user" where
  "incrementLoginAttempts now u =
     (if lock_expired now u then
        u\<lparr>loginAttempts := 1, lockUntil := None\<rparr>
      else if loginAttempts u + 1 \<ge> MAX_LOGIN_ATTEMPTS \<and> \<not> isLocked now u then
        u\<lparr>loginAttempts := loginAttempts u + 1, lockUntil := Some (now + LOCK_TIME)\<rparr>
      else
        u\<lparr>loginAttempts := loginAttempts u + 1\<rparr>)"

definition resetLoginAttempts :: "int \<Rightarrow> user \<Rightarrow> user" where
  "resetLoginAttempts now u =
     u\<lparr>loginAttempts := 0, lastLogin := Some now, lockUntil := None\<rparr>"

section \<open>Requests and responses\<close>

text \<open>
  What the code reads of a \<^verbatim>\<open>NextRequest\<close>: the \<^verbatim>\<open>x-forwarded-for\<close> and
  \<^verbatim>\<open>authorization\<close> headers, the \<^verbatim>\<open>token\<close> cookie, the session cookie that
  \<^verbatim>\<open>getToken\<close> of the session library decodes, and the path. A header value is
  a byte string, which \<open>string\<close> is.
\<close>

record request =
  x_forwarded_for :: "string option"
  authorization :: "string option"
  token_cookie :: "string option"
  session_cookie :: "string option"
  pathname :: string

text \<open>A string literal as a list of code units.\<close>

definition str :: "string \<Rightarrow> nat list" where
  "str s = map of_char s"

text \<open>
  What the properties below observe of a \<^verbatim>\<open>NextResponse\<close>: the status, the \<^verbatim>\<open>error\<close> or
  \<^verbatim>\<open>message\<close> text and the \<^verbatim>\<open>code\<close> of the JSON body, the number sent as
  \<^verbatim>\<open>retryAfter\<close> and (in decimal) as the \<^verbatim>\<open>Retry-After\<close> header, the token of
  \<^verbatim>\<open>data.token\<close> and the value of the \<^verbatim>\<open>token\<close> cookie the response sets. The
  field-keyed validation messages, the echoed user fields and the fixed
  security headers are left out.
\<close>

record response =
  status :: nat
  success :: bool
  error :: "string option"
  message :: "string option"
  code :: "string option"
  retryAfter :: "int option"
  token :: "string option"
  set_cookie_token :: "string option"

definition errorResponse :: "string \<Rightarrow> nat \<Rightarrow> string \<Rightarrow> response" where
  "errorResponse err st cd =
     \<lparr>status = st, success = False, error = Some err, message = None,
      code = (if cd = [] then None else Some cd), retryAfter = None,
      token = None, set_cookie_token = None\<rparr>"

text \<open>\<^verbatim>\<open>successResponse\<close> followed by \<^verbatim>\<open>response.cookies.set('token', token, ...)\<close>,
  as the login and register handlers use them.\<close>

definition successResponse_with_token :: "string \<Rightarrow> string \<Rightarrow> nat \<Rightarrow> response" where
  "successResponse_with_token tok msg st =
     \<lparr>status = st, success = True, error = None,
      message = (if msg = [] then None else Some msg), code = None,
      retryAfter = None, token = Some tok, set_cookie_token = Some tok\<rparr>"

text \<open>\<^verbatim>\<open>handleZodError\<close>.\<close>

definition handleZodError :: response where
  "handleZodError = errorResponse ''Validation failed'' 400 ''VALIDATION_ERROR''"

subsection \<open>Strings\<close>

text \<open>\<^verbatim>\<open>String.prototype.trim\<close> on code units below 256: the white space and line
  terminators of that range are 9 to 13, 32 and 160.\<close>

definition is_space :: "char \<Rightarrow> bool" where
  "is_space c = (of_char c \<in> {9, 10, 11, 12, 13, 32, 160 :: nat})"

definition trim :: "string \<Rightarrow> string" where
  "trim s = rev (dropWhile is_space (rev (dropWhile is_space s)))"

text \<open>\<^verbatim>\<open>Math.ceil(x / d)\<close> for whole \<open>x\<close> and positive whole \<open>d\<close>.\<close>

definition ceil_div :: "int \<Rightarrow> int \<Rightarrow> int" where
  "ceil_div x d = - ((- x) div d)"


section \<open>The generic fixed-window limiter\<close>

record RateLimitConfig =
  windowMs :: int
  maxRequests :: int

record RateLimitEntry =
  count :: int
  resetTime :: int

type_synonym rateLimitStore = "string \<rightharpoonup> RateLimitEntry"






definition rateLimitConfigs_api :: RateLimitConfig where
  "rateLimitConfigs_api = \<lparr>windowMs = 60 * 1000, maxRequests = 100\<rparr>"

definition rateLimitConfigs_read :: RateLimitConfig where
  "rateLimitConfigs_read = \<lparr>windowMs = 60 * 1000, maxRequests = 200\<rparr>"

definition rateLimitConfigs_passwordReset :: RateLimitConfig where
  "rateLimitConfigs_passwordReset = \<lparr>windowMs = 60 * 60 * 1000, maxRequests = 3\<rparr>"


section \<open>The login limiter with exponential backoff\<close>

text \<open>An entry of the \<^verbatim>\<open>loginAttempts\<close> map of the limiter, \<^verbatim>\<open>{ count, lastAttempt }\<close>;
  its \<^verbatim>\<open>count\<close> is \<open>attempt_count\<close> here.\<close>

record LoginAttempt =
  attempt_count :: nat
  lastAttempt :: int

type_synonym loginAttemptsStore = "string \<rightharpoonup> LoginAttempt"

definition login_key :: "string \<Rightarrow> string \<Rightarrow> string" where
  "login_key ip mail = ''login:'' @ ip @ '':'' @ mail"

text \<open>\<^verbatim>\<open>Math.min(Math.pow(2, attempt.count - 1) * 1000, 30 * 60 * 1000)\<close>; a count
  of 0, which no call stores, would give \<^verbatim>\<open>Math.pow(2, -1) * 1000 = 500\<close>.\<close>

definition backoff_waitTime :: "nat \<Rightarrow> int" where
  "backoff_waitTime c = min (if c = 0 then 500 else 2 ^ (c - 1) * 1000) (30 * 60 * 1000)"

text \<open>\<^verbatim>\<open>checkLoginRateLimit\<close> returns \<^verbatim>\<open>{ allowed, waitTime }\<close>, here a pair.\<close>

definition checkLoginRateLimit ::
  "loginAttemptsStore \<Rightarrow> string \<Rightarrow> string \<Rightarrow> int \<Rightarrow> (bool \<times> int) \<times> loginAttemptsStore" where
  "checkLoginRateLimit store ip mail now =
     (let key = login_key ip mail
      in case store key of
           None \<Rightarrow> ((True, 0), store(key \<mapsto> \<lparr>attempt_count = 1, lastAttempt = now\<rparr>))
         | Some attempt \<Rightarrow>
             (let waitTime = backoff_waitTime (attempt_count attempt);
                  timeSinceLastAttempt = now - lastAttempt attempt
              in if timeSinceLastAttempt \<ge> waitTime then
                   (if timeSinceLastAttempt \<ge> 30 * 60 * 1000 then
                      ((True, 0), store(key \<mapsto> \<lparr>attempt_count = 1, lastAttempt = now\<rparr>))
                    else
                      ((True, 0),
                       store(key \<mapsto> \<lparr>attempt_count = attempt_count attempt + 1, lastAttempt = now\<rparr>)))
                 else
                   ((False, ceil_div (waitTime - timeSinceLastAttempt) 1000), store)))"

text \<open>\<^verbatim>\<open>resetLoginAttempts(ip, email)\<close> of the limiter (the user model has a method
  of the same name).\<close>

definition resetLoginAttempts_limiter :: "loginAttemptsStore \<Rightarrow> string \<Rightarrow> string \<Rightarrow> loginAttemptsStore" where
  "resetLoginAttempts_limiter store ip mail = store(login_key ip mail := None)"


section \<open>The login handler\<close>

text \<open>
  The parts of the application that are not in the repository are parameters
  of the handlers: \<^verbatim>\<open>bcrypt.compare\<close> and \<^verbatim>\<open>bcrypt.hash\<close> (with the salt it
  draws), the \<^verbatim>\<open>.email()\<close> check of the validation library, \<^verbatim>\<open>sanitizeHtml\<close>,
  \<^verbatim>\<open>getToken\<close> of the session library, which gives the decoded session token,
  \<^verbatim>\<open>null\<close> or an exception, and \<^verbatim>\<open>generateToken\<close> and \<^verbatim>\<open>verifyToken\<close> of the token
  module, the first called with the user id and the email.
  A password is the list of its UTF-16 code units, which is what \<^verbatim>\<open>length\<close> and
  the regular expressions of the code see.
\<close>

type_synonym js_string = "nat list"

text \<open>A call that may throw.\<close>

datatype 'a attempt = Throws | Returns 'a

text \<open>What the code reads of a decoded session token, and the payload of a
  legacy token (its \<^verbatim>\<open>email\<close> is \<open>payload_email\<close> here).\<close>

record nextauth_token =
  token_email :: "string option"

record JWTPayload =
  userId :: string
  payload_email :: string

record env =
  isEmail :: "string \<Rightarrow> bool"
  bcrypt_compare :: "js_string \<Rightarrow> string \<Rightarrow> bool"
  bcrypt_hash :: "js_string \<Rightarrow> string"
  sanitizeHtml :: "string \<Rightarrow> string"
  generateToken :: "string \<Rightarrow> string \<Rightarrow> string"
  verifyToken :: "string \<Rightarrow> JWTPayload option"
  getToken :: "request \<Rightarrow> nextauth_token option attempt"

text \<open>The stores the handlers share: the user collection, looked up by email,
  and the two maps of the limiters.\<close>

record state =
  users :: "string \<rightharpoonup> user"
  loginAttempts_limiter :: loginAttemptsStore
  rateLimitStore :: rateLimitStore

text \<open>\<^verbatim>\<open>String.prototype.toLowerCase\<close> on code units below 256.\<close>

definition toLowerCase :: "string \<Rightarrow> string" where
  "toLowerCase s =
     map (\<lambda>c. let n = (of_char c :: nat)
              in if (65 \<le> n \<and> n \<le> 90) \<or> (192 \<le> n \<and> n \<le> 222 \<and> n \<noteq> 215)
                 then char_of (n + 32) else c) s"

text \<open>\<^verbatim>\<open>email.toLowerCase().trim().replace(/[<>'"]/g, '')\<close>.\<close>

definition sanitizeEmail :: "string \<Rightarrow> string" where
  "sanitizeEmail mail =
     filter (\<lambda>c. c \<notin> {CHR ''<'', CHR ''>'', CHR 0x27, CHR 0x22}) (trim (toLowerCase mail))"

text \<open>The decimal digits of a number, as a template literal prints it.\<close>

function decimal :: "nat \<Rightarrow> string" where
  "decimal n =
     (if n < 10 then [char_of (48 + n)]
      else decimal (n div 10) @ [char_of (48 + n mod 10)])"
  by pat_completeness auto
termination
  by (relation "measure id") auto

declare decimal.simps [simp del]

definition show_int :: "int \<Rightarrow> string" where
  "show_int i = (if i < 0 then CHR ''-'' # decimal (nat (- i)) else decimal (nat i))"

record login_body =
  login_email :: string
  login_password :: js_string

text \<open>\<^verbatim>\<open>loginSchema\<close>: a non-empty string that is an email, and a password of at
  least 1 and at least 6 code units.\<close>

definition loginSchema :: "env \<Rightarrow> login_body \<Rightarrow> bool" where
  "loginSchema ev body =
     (length (login_email body) \<ge> 1 \<and> isEmail ev (login_email body)
      \<and> length (login_password body) \<ge> 1 \<and> length (login_password body) \<ge> 6)"

text \<open>\<^verbatim>\<open>request.headers.get('x-forwarded-for')?.split(',')[0].trim() || 'unknown'\<close>.\<close>

definition login_ip :: "request \<Rightarrow> string" where
  "login_ip request =
     (let ip = (case x_forwarded_for request of
                  None \<Rightarrow> []
                | Some forwarded \<Rightarrow> trim (takeWhile (\<lambda>c. c \<noteq> CHR '','') forwarded))
      in if ip = [] then ''unknown'' else ip)"

definition provider_name :: "provider option \<Rightarrow> string" where
  "provider_name p = (if p = Some Google then ''Google'' else ''GitHub'')"

text \<open>
  \<^verbatim>\<open>POST\<close> of the login route, with the store reachable and a JSON body of
  two strings. The request is handled at the instant \<open>now\<close>. A body the schema
  rejects goes to the \<^verbatim>\<open>catch\<close> branch, which answers with \<^verbatim>\<open>handleZodError\<close>.
\<close>

definition login_POST :: "env \<Rightarrow> state \<Rightarrow> request \<Rightarrow> login_body \<Rightarrow> int \<Rightarrow> response \<times> state" where
  "login_POST ev st request body now =
     (let ip = login_ip request
      in if \<not> loginSchema ev body then (handleZodError, st)
         else
           (let sanitizedEmail = sanitizeEmail (login_email body)
            in case checkLoginRateLimit (loginAttempts_limiter st) ip sanitizedEmail now of
                 ((admitted, waitTime), limiter') \<Rightarrow>
                   (let st' = st\<lparr>loginAttempts_limiter := limiter'\<rparr>
                    in if \<not> admitted then
                         (errorResponse
                            (''Too many login attempts. Please try again in '' @ show_int waitTime
                               @ '' seconds.'')
                            429 ''RATE_LIMIT_ERROR'', st')
                       else
                         (case users st' sanitizedEmail of
                            None \<Rightarrow>
                              (errorResponse ''Invalid email or password'' 401
                                 ''AUTHENTICATION_ERROR'', st')
                          | Some u \<Rightarrow>
                              if no_password u \<and> provider u \<noteq> None
                                  \<and> provider u \<noteq> Some Credentials then
                                (errorResponse
                                   (''This account was created with '' @ provider_name (provider u)
                                      @ ''. Please sign in using '' @ provider_name (provider u)
                                      @ '', or register with this email to set a password.'')
                                   401 ''AUTHENTICATION_ERROR'', st')
                              else if isLocked now u then
                                (errorResponse
                                   ''Your account has been temporarily locked due to too many failed attempts. Please try again later.''
                                   401 ''AUTHENTICATION_ERROR'', st')
                              else if \<not> comparePassword (bcrypt_compare ev) u (login_password body) then
                                (errorResponse ''Invalid email or password'' 401
                                   ''AUTHENTICATION_ERROR'',
                                 st'\<lparr>users := (users st')(sanitizedEmail \<mapsto>
                                        incrementLoginAttempts now u)\<rparr>)
                              else
                                (successResponse_with_token
                                   (generateToken ev (user_id u) (email u))
                                   ''Login successful'' 200,
                                 st'\<lparr>users := (users st')(sanitizedEmail \<mapsto>
                                        resetLoginAttempts now u),
                                      loginAttempts_limiter :=
                                        resetLoginAttempts_limiter limiter' ip sanitizedEmail\<rparr>)))))"

text \<open>Successive login requests, each with its body and the time it arrives at.\<close>

fun login_POST_seq ::
  "env \<Rightarrow> state \<Rightarrow> (request \<times> login_body \<times> int) list \<Rightarrow> response list \<times> state" where
  "login_POST_seq ev st [] = ([], st)"
| "login_POST_seq ev st ((request, body, now) # rest) =
     (case login_POST ev st request body now of
        (r, st') \<Rightarrow>
          (case login_POST_seq ev st' rest of
             (rs, st'') \<Rightarrow> (r # rs, st'')))"

text \<open>Three of the answers of the login handler, and the guard of its
  \<^verbatim>\<open>oauth_no_password\<close> branch, by name.\<close>

definition invalid_credentials :: response where
  "invalid_credentials = errorResponse ''Invalid email or password'' 401 ''AUTHENTICATION_ERROR''"

definition account_locked :: response where
  "account_locked = errorResponse
     ''Your account has been temporarily locked due to too many failed attempts. Please try again later.''
     401 ''AUTHENTICATION_ERROR''"

definition oauth_without_password :: "user \<Rightarrow> bool" where
  "oauth_without_password u =
     (no_password u \<and> provider u \<noteq> None \<and> provider u \<noteq> Some Credentials)"


section \<open>Password strength\<close>

record PasswordStrength =
  isValid :: bool
  score :: int
  feedback :: "string list"

text \<open>The tests \<^verbatim>\<open>/[a-z]/\<close>, \<^verbatim>\<open>/[A-Z]/\<close>, \<^verbatim>\<open>/\d/\<close> and \<^verbatim>\<open>/[!@#$%^&*(),.?":{}|<>]/\<close>.\<close>

definition has_lowercase :: "js_string \<Rightarrow> bool" where
  "has_lowercase pw = list_ex (\<lambda>c. 97 \<le> c \<and> c \<le> 122) pw"

definition has_uppercase :: "js_string \<Rightarrow> bool" where
  "has_uppercase pw = list_ex (\<lambda>c. 65 \<le> c \<and> c \<le> 90) pw"

definition has_digit :: "js_string \<Rightarrow> bool" where
  "has_digit pw = list_ex (\<lambda>c. 48 \<le> c \<and> c \<le> 57) pw"

definition has_symbol :: "js_string \<Rightarrow> bool" where
  "has_symbol pw =
     list_ex (\<lambda>c. c \<in> set (str ''!@#$%^&*(),.?'' @ [34] @ str '':{}|<>'')) pw"

text \<open>
  A pattern with the flag \<^verbatim>\<open>i\<close> and no flag \<^verbatim>\<open>u\<close> matches a letter of the
  pattern against that letter in either case and against no other code unit;
  so the subject is compared with its letters \<^verbatim>\<open>A\<close> to \<^verbatim>\<open>Z\<close> in lower case.
\<close>

definition fold_case :: "js_string \<Rightarrow> js_string" where
  "fold_case pw = map (\<lambda>c. if 65 \<le> c \<and> c \<le> 90 then c + 32 else c) pw"

definition contains_ci :: "string \<Rightarrow> js_string \<Rightarrow> bool" where
  "contains_ci word pw = sublist (str word) (fold_case pw)"

text \<open>\<^verbatim>\<open>/(.)\1{2,}/\<close>: a code unit other than a line terminator, three times in a row.\<close>

fun has_repeat :: "js_string \<Rightarrow> bool" where
  "has_repeat (a # b # c # rest) =
     ((a = b \<and> b = c \<and> a \<notin> {10, 13, 8232, 8233}) \<or> has_repeat (b # c # rest))"
| "has_repeat _ = False"

text \<open>\<^verbatim>\<open>commonPatterns.some((pattern) => pattern.test(password))\<close> over
  \<^verbatim>\<open>/^123/\<close>, \<^verbatim>\<open>/password/i\<close>, \<^verbatim>\<open>/qwerty/i\<close>, \<^verbatim>\<open>/abc123/i\<close> and \<^verbatim>\<open>/(.)\1{2,}/\<close>.\<close>

definition commonPatterns :: "js_string \<Rightarrow> bool" where
  "commonPatterns pw =
     (prefix (str ''123'') pw
      \<or> contains_ci ''password'' pw
      \<or> contains_ci ''qwerty'' pw
      \<or> contains_ci ''abc123'' pw
      \<or> has_repeat pw)"

definition validatePasswordStrength :: "js_string \<Rightarrow> PasswordStrength" where
  "validatePasswordStrength pw =
     (let (sc, fb) = (0, []);
          (sc, fb) = (if length pw \<ge> 8 then (sc + 1, fb)
                      else (sc, fb @ [''Password should be at least 8 characters'']));
          sc = (if length pw \<ge> 12 then sc + 1 else sc);
          (sc, fb) = (if has_lowercase pw then (sc + 1, fb)
                      else (sc, fb @ [''Add lowercase letters'']));
          (sc, fb) = (if has_uppercase pw then (sc + 1, fb)
                      else (sc, fb @ [''Add uppercase letters'']));
          (sc, fb) = (if has_digit pw then (sc + 1, fb)
                      else (sc, fb @ [''Add numbers'']));
          (sc, fb) = (if has_symbol pw then (sc + 1, fb)
                      else (sc, fb @ [''Add special characters'']));
          (sc, fb) = (if commonPatterns pw then (max 0 (sc - 2), fb @ [''Avoid common patterns''])
                      else (sc, fb))
      in \<lparr>isValid = (sc \<ge> 4), score = sc, feedback = fb\<rparr>)"

text \<open>The number of the six scored criteria a password meets.\<close>

definition criteria_met :: "js_string \<Rightarrow> int" where
  "criteria_met pw =
     of_bool (length pw \<ge> 8) + of_bool (length pw \<ge> 12) + of_bool (has_lowercase pw)
     + of_bool (has_uppercase pw) + of_bool (has_digit pw) + of_bool (has_symbol pw)"

text \<open>
  The policy in the words of the specification, for comparison with the code:
  the weak patterns are a leading \<^verbatim>\<open>123\<close>, the words \<^verbatim>\<open>password\<close> and \<^verbatim>\<open>qwerty\<close>, and
  a character three or more times in a row; a match takes 2 off the count of
  criteria met, and the score stays between 0 and 6.
\<close>

definition spec_weak_pattern :: "js_string \<Rightarrow> bool" where
  "spec_weak_pattern pw =
     (prefix (str ''123'') pw \<or> contains_ci ''password'' pw \<or> contains_ci ''qwerty'' pw
      \<or> has_repeat pw)"

definition spec_score :: "js_string \<Rightarrow> int" where
  "spec_score pw = (if spec_weak_pattern pw then max 0 (criteria_met pw - 2) else criteria_met pw)"

section \<open>The register handler\<close>








section \<open>The unified authenticator\<close>

text \<open>\<^verbatim>\<open>getTokenFromRequest\<close>: the text after \<^verbatim>\<open>Bearer \<close> of the \<^verbatim>\<open>authorization\<close>
  header when the header starts so, else a non-empty \<^verbatim>\<open>token\<close> cookie, else
  \<^verbatim>\<open>null\<close>.\<close>

definition getTokenFromRequest :: "request \<Rightarrow> string option" where
  "getTokenFromRequest request =
     (let fromCookie = (case token_cookie request of
                          None \<Rightarrow> None
                        | Some v \<Rightarrow> if v = [] then None else Some v)
      in case authorization request of
           None \<Rightarrow> fromCookie
         | Some authHeader \<Rightarrow>
             if prefix ''Bearer '' authHeader then Some (drop 7 authHeader) else fromCookie)"

text \<open>
  The \<^verbatim>\<open>try\<close> block of \<^verbatim>\<open>authenticateRequest\<close>: the principal it returns, or
  \<open>None\<close> when it falls through or an exception is caught. \<open>findOne\<close> is the lookup
  of the user collection by email, which may throw.
\<close>

definition session_principal ::
  "env \<Rightarrow> (string \<Rightarrow> user option attempt) \<Rightarrow> request \<Rightarrow> JWTPayload option" where
  "session_principal ev findOne request =
     (case getToken ev request of
        Throws \<Rightarrow> None
      | Returns None \<Rightarrow> None
      | Returns (Some nextAuthToken) \<Rightarrow>
          (case token_email nextAuthToken of
             None \<Rightarrow> None
           | Some mail \<Rightarrow>
               if mail = [] then None
               else (case findOne mail of
                       Throws \<Rightarrow> None
                     | Returns None \<Rightarrow> None
                     | Returns (Some dbUser) \<Rightarrow>
                         Some \<lparr>userId = user_id dbUser, payload_email = email dbUser\<rparr>)))"

text \<open>\<^verbatim>\<open>authenticateRequest\<close> returns \<^verbatim>\<open>{ user, error }\<close>, here a pair.\<close>

definition authenticateRequest ::
  "env \<Rightarrow> (string \<Rightarrow> user option attempt) \<Rightarrow> request \<Rightarrow> JWTPayload option \<times> string option" where
  "authenticateRequest ev findOne request =
     (case session_principal ev findOne request of
        Some resolved \<Rightarrow> (Some resolved, None)
      | None \<Rightarrow>
          (case getTokenFromRequest request of
             None \<Rightarrow> (None, Some ''No authentication token provided'')
           | Some tok \<Rightarrow>
               if tok = [] then (None, Some ''No authentication token provided'')
               else (case verifyToken ev tok of
                       None \<Rightarrow> (None, Some ''Invalid or expired token'')
                     | Some decoded \<Rightarrow> (Some decoded, None))))"

text \<open>The lookup of a reachable store.\<close>

definition store_findOne :: "state \<Rightarrow> string \<Rightarrow> user option attempt" where
  "store_findOne st mail = Returns (users st mail)"

section \<open>The request boundary middleware\<close>

definition protectedPaths :: "string list" where
  "protectedPaths = [''/dashboard'']"

definition authPaths :: "string list" where
  "authPaths = [''/auth/login'', ''/auth/register'']"

text \<open>What \<^verbatim>\<open>middleware\<close> returns: the response that lets the request through, or
  a redirect to a path, with the \<^verbatim>\<open>callbackUrl\<close> parameter when it sets one.\<close>

datatype middleware_result = Next | Redirect string "string option"

definition isAuthenticated :: "nextauth_token option \<Rightarrow> request \<Rightarrow> bool" where
  "isAuthenticated tok request =
     (tok \<noteq> None \<or> (case token_cookie request of None \<Rightarrow> False | Some legacyToken \<Rightarrow> legacyToken \<noteq> []))"

definition middleware :: "env \<Rightarrow> request \<Rightarrow> middleware_result attempt" where
  "middleware ev request =
     (case getToken ev request of
        Throws \<Rightarrow> Throws
      | Returns tok \<Rightarrow>
          (let isProtectedPath = list_ex (\<lambda>path. prefix path (pathname request)) protectedPaths;
               isAuthPath = list_ex (\<lambda>path. prefix path (pathname request)) authPaths
           in if isProtectedPath \<and> \<not> isAuthenticated tok request then
                Returns (Redirect ''/auth/login'' (Some (pathname request)))
              else if isAuthPath \<and> isAuthenticated tok request then
                Returns (Redirect ''/dashboard'' None)
              else Returns Next))"

section \<open>The legacy token\<close>

text \<open>
  Modelled from the spec: the token module (\<^verbatim>\<open>jwt.ts\<close>, with \<^verbatim>\<open>generateToken\<close> and
  \<^verbatim>\<open>verifyToken\<close>) is not in the snapshot. By the specification a legacy token is
  a signed payload of user id, email, issue time and expiry, signed
  symmetrically with a process-wide secret; issuing sets the expiry 7 days
  after the issue time; verifying yields the payload, or invalid on a
  signature mismatch, a malformed payload or an expiry in the past. The
  signature is symbolic: the signature of a payload under a key is a value
  that only that key and that payload give, which is the guarantee a message
  authentication code is used for. The serialisation of the payload to bits
  is a parameter. Times are in seconds.
\<close>

record claims =
  claim_userId :: string
  claim_email :: string
  issuedAt :: int
  expiry :: int

datatype signature = Sign string "bool list"

record legacy_token =
  signed_payload :: "bool list"
  token_signature :: signature

record codec =
  encode :: "claims \<Rightarrow> bool list"
  decode :: "bool list \<Rightarrow> claims option"

definition TOKEN_LIFETIME :: int where
  "TOKEN_LIFETIME = 7 * 24 * 60 * 60"

definition issue :: "string \<Rightarrow> codec \<Rightarrow> int \<Rightarrow> string \<Rightarrow> string \<Rightarrow> legacy_token" where
  "issue secret cd now uid mail =
     (let payload = encode cd \<lparr>claim_userId = uid, claim_email = mail, issuedAt = now,
                                expiry = now + TOKEN_LIFETIME\<rparr>
      in \<lparr>signed_payload = payload, token_signature = Sign secret payload\<rparr>)"

definition verify :: "string \<Rightarrow> codec \<Rightarrow> int \<Rightarrow> legacy_token \<Rightarrow> (string \<times> string) option" where
  "verify secret cd now tok =
     (if token_signature tok \<noteq> Sign secret (signed_payload tok) then None
      else case decode cd (signed_payload tok) of
             None \<Rightarrow> None
           | Some c \<Rightarrow> if expiry c < now then None else Some (claim_userId c, claim_email c))"

text \<open>The payload with its bit \<open>i\<close> inverted.\<close>

definition flip_bit :: "nat \<Rightarrow> bool list \<Rightarrow> bool list" where
  "flip_bit i bits = bits[i := \<not> bits ! i]"

section \<open>Scenario data\<close>

text \<open>
  The data of the worked scenarios: stand-ins for the libraries (a password
  check that compares with a marked copy of the password, an email check that
  looks for \<open>@\<close>, a token that is the user id, a colon and the email, a session
  cookie that is the email), the account of the spec's scenarios, registered with the
  password \<^verbatim>\<open>Passw0rd!\<close>, five login requests for it with a wrong password,
  spaced so that the login limiter admits each, a second account that a
  provider sign-in made, and a registration body.
\<close>

definition example_env :: env where
  "example_env =
     \<lparr>isEmail = (\<lambda>s. CHR ''@'' \<in> set s),
      bcrypt_compare = (\<lambda>p h. h = CHR ''$'' # map char_of p),
      bcrypt_hash = (\<lambda>p. CHR ''$'' # map char_of p),
      sanitizeHtml = (\<lambda>s. s),
      generateToken = (\<lambda>uid mail. uid @ '':'' @ mail),
      verifyToken = (\<lambda>t. if CHR '':'' \<in> set t
                          then Some \<lparr>userId = takeWhile (\<lambda>c. c \<noteq> CHR '':'') t,
                                     payload_email = tl (dropWhile (\<lambda>c. c \<noteq> CHR '':'') t)\<rparr>
                          else None),
      getToken = (\<lambda>r. Returns (case session_cookie r of
                                    None \<Rightarrow> None
                                  | Some c \<Rightarrow> if c = [] then None
                                             else Some \<lparr>token_email = Some c\<rparr>))\<rparr>"

definition alice :: user where
  "alice =
     \<lparr>user_id = ''u1'', email = ''alice@example.com'',
      password = Some (bcrypt_hash example_env (str ''Passw0rd!'')),
      firstName = ''Alice'', lastName = ''Liddell'', avatar = [], bio = [],
      provider = Some Credentials, providerId = None, emailVerified = False,
      lastLogin = None, loginAttempts = 0, lockUntil = None\<rparr>"

text \<open>An account made by a Google sign-in, with no password.\<close>

definition bob :: user where
  "bob =
     \<lparr>user_id = ''u2'', email = ''bob@example.com'', password = None,
      firstName = ''Bob'', lastName = ''User'', avatar = [], bio = [],
      provider = Some Google, providerId = Some ''google-subject-2'', emailVerified = True,
      lastLogin = None, loginAttempts = 0, lockUntil = None\<rparr>"

definition example_state :: state where
  "example_state =
     \<lparr>users = [''alice@example.com'' \<mapsto> alice, ''bob@example.com'' \<mapsto> bob],
      loginAttempts_limiter = Map.empty, rateLimitStore = Map.empty\<rparr>"


definition request_from :: "string \<Rightarrow> string \<Rightarrow> request" where
  "request_from ip path =
     \<lparr>x_forwarded_for = Some ip, authorization = None, token_cookie = None,
      session_cookie = None, pathname = path\<rparr>"

definition login_attempt :: "string \<Rightarrow> string \<Rightarrow> int \<Rightarrow> request \<times> login_body \<times> int" where
  "login_attempt ip pw now =
     (request_from ip ''/api/auth/login'',
      \<lparr>login_email = ''alice@example.com'', login_password = str pw\<rparr>, now)"

definition five_failures :: "(request \<times> login_body \<times> int) list" where
  "five_failures =
     [login_attempt ''203.0.113.7'' ''wrong-password'' 0,
      login_attempt ''203.0.113.7'' ''wrong-password'' 1000,
      login_attempt ''203.0.113.7'' ''wrong-password'' 3000,
      login_attempt ''203.0.113.7'' ''wrong-password'' 7000,
      login_attempt ''203.0.113.7'' ''wrong-password'' 15000]"


text \<open>A payload and a serialisation for the token of the scenarios.\<close>

definition example_claims :: claims where
  "example_claims =
     \<lparr>claim_userId = ''u1'', claim_email = ''alice@example.com'', issuedAt = 0,
      expiry = 0 + 7 * 24 * 60 * 60\<rparr>"

definition example_codec :: codec where
  "example_codec =
     \<lparr>encode = (\<lambda>c. [True, False, True, True]),
      decode = (\<lambda>bits. if bits = [True, False, True, True] then Some example_claims else None)\<rparr>"


section \<open>Properties of the account operations\<close>

lemma incrementLoginAttempts_pos: "loginAttempts (incrementLoginAttempts now u) > 0"
  by (simp add: incrementLoginAttempts_def)

text \<open>
  Claim C9. \<open>resetLoginAttempts\<close> sets the counter to zero, clears \<open>lockUntil\<close> and
  stamps \<open>lastLogin\<close> with the current time in one write, leaving every other
  field as it was; so the record it produces never has a zero counter together
  with a lock. It is the only account operation that produces a zero counter:
  \<open>incrementLoginAttempts\<close> always leaves a positive one.
\<close>

theorem resetLoginAttempts_clears_lock:
  "loginAttempts (resetLoginAttempts now u) = 0
   \<and> lockUntil (resetLoginAttempts now u) = None
   \<and> lastLogin (resetLoginAttempts now u) = Some now
   \<and> \<not> isLocked t (resetLoginAttempts now u)
   \<and> resetLoginAttempts now u = u\<lparr>loginAttempts := 0, lastLogin := Some now, lockUntil := None\<rparr>
   \<and> loginAttempts (incrementLoginAttempts now u) \<noteq> 0"
  by (simp add: resetLoginAttempts_def isLocked_def incrementLoginAttempts_def)

text \<open>
  Claim C4. \<open>incrementLoginAttempts\<close>, on an account whose lock lies in the past,
  sets the counter to 1 and clears the lock. Otherwise it adds 1 to the
  counter; when the new count is 5 or more and the account is not locked at
  that instant it sets \<open>lockUntil\<close> to the instant plus 2 hours, and else it
  leaves \<open>lockUntil\<close> as it was. Nothing else of the account changes.
\<close>

theorem incrementLoginAttempts_branches:
  "(lock_expired now u \<longrightarrow>
      incrementLoginAttempts now u = u\<lparr>loginAttempts := 1, lockUntil := None\<rparr>)
   \<and> (\<not> lock_expired now u \<and> 5 \<le> loginAttempts u + 1 \<and> \<not> isLocked now u \<longrightarrow>
      incrementLoginAttempts now u =
        u\<lparr>loginAttempts := loginAttempts u + 1,
          lockUntil := Some (now + 2 * 60 * 60 * 1000)\<rparr>)
   \<and> (\<not> lock_expired now u \<and> \<not> (5 \<le> loginAttempts u + 1 \<and> \<not> isLocked now u) \<longrightarrow>
      incrementLoginAttempts now u = u\<lparr>loginAttempts := loginAttempts u + 1\<rparr>)
   \<and> (lock_expired now u \<longleftrightarrow> (\<exists>t. lockUntil u = Some t \<and> t < now))
   \<and> (isLocked now u \<longleftrightarrow> (\<exists>t. lockUntil u = Some t \<and> now < t))"
  by (auto simp add: incrementLoginAttempts_def lock_expired_def isLocked_def
      MAX_LOGIN_ATTEMPTS_def LOCK_TIME_def split: option.splits)

theorem incrementLoginAttempts_branches_witness:
  "incrementLoginAttempts 9000000 (alice\<lparr>loginAttempts := 5, lockUntil := Some 7215000\<rparr>)
     = alice\<lparr>loginAttempts := 1, lockUntil := None\<rparr>
   \<and> incrementLoginAttempts 15000 (alice\<lparr>loginAttempts := 4\<rparr>)
     = alice\<lparr>loginAttempts := 5, lockUntil := Some 7215000\<rparr>
   \<and> incrementLoginAttempts 7000 (alice\<lparr>loginAttempts := 3\<rparr>)
     = alice\<lparr>loginAttempts := 4\<rparr>"
  using incrementLoginAttempts_branches
          [of 9000000 "alice\<lparr>loginAttempts := 5, lockUntil := Some 7215000\<rparr>"]
        incrementLoginAttempts_branches [of 15000 "alice\<lparr>loginAttempts := 4\<rparr>"]
        incrementLoginAttempts_branches [of 7000 "alice\<lparr>loginAttempts := 3\<rparr>"]
  by (simp add: lock_expired_def isLocked_def alice_def)

section \<open>Properties of the generic limiter\<close>













section \<open>Properties of the login limiter\<close>


lemma backoff_waitTime_pos: "0 < backoff_waitTime c"
  by (simp add: backoff_waitTime_def)











section \<open>Properties of the login handler\<close>

lemma login_POST_failed_verification:
  assumes "users st (sanitizeEmail (login_email body)) = Some u"
    and "fst (login_POST ev st request body now) = invalid_credentials"
  shows "users (snd (login_POST ev st request body now)) =
           (users st)(sanitizeEmail (login_email body) \<mapsto> incrementLoginAttempts now u)
         \<and> \<not> isLocked now u \<and> \<not> oauth_without_password u \<and> loginSchema ev body"
  using assms
  by (auto simp add: login_POST_def Let_def invalid_credentials_def account_locked_def
      errorResponse_def handleZodError_def successResponse_with_token_def
      oauth_without_password_def
      split: prod.splits if_splits)

lemma login_POST_locked:
  assumes "users st (sanitizeEmail (login_email body)) = Some u"
    and "loginSchema ev body" and "isLocked now u" and "\<not> oauth_without_password u"
  shows "users (snd (login_POST ev st request body now)) = users st
     \<and> (if fst (fst (checkLoginRateLimit (loginAttempts_limiter st) (login_ip request)
               (sanitizeEmail (login_email body)) now))
        then fst (login_POST ev st request body now) = account_locked
        else status (fst (login_POST ev st request body now)) = 429)"
  using assms
  by (auto simp add: login_POST_def Let_def account_locked_def errorResponse_def
      oauth_without_password_def split: prod.splits)

lemma incrementLoginAttempts_unlocked:
  "lockUntil u = None \<Longrightarrow>
   incrementLoginAttempts now u =
     (if 5 \<le> loginAttempts u + 1
      then u\<lparr>loginAttempts := loginAttempts u + 1, lockUntil := Some (now + LOCK_TIME)\<rparr>
      else u\<lparr>loginAttempts := loginAttempts u + 1\<rparr>)"
  by (simp add: incrementLoginAttempts_def lock_expired_def isLocked_def MAX_LOGIN_ATTEMPTS_def)

lemma login_POST_seq_Cons:
  "login_POST_seq ev st ((request, body, now) # rest) =
     (fst (login_POST ev st request body now)
        # fst (login_POST_seq ev (snd (login_POST ev st request body now)) rest),
      snd (login_POST_seq ev (snd (login_POST ev st request body now)) rest))"
  by (simp add: case_prod_beta)

lemma login_POST_seq_failures:
  assumes "users st e = Some u" and "lockUntil u = None"
    and "loginAttempts u + length reqs \<le> 5"
    and "\<forall>(request, body, now) \<in> set reqs. sanitizeEmail (login_email body) = e"
    and "\<forall>r \<in> set (fst (login_POST_seq ev st reqs)). r = invalid_credentials"
  shows "users (snd (login_POST_seq ev st reqs)) e =
     Some (u\<lparr>loginAttempts := loginAttempts u + length reqs,
              lockUntil := (if reqs \<noteq> [] \<and> loginAttempts u + length reqs = 5
                            then Some (snd (snd (last reqs)) + LOCK_TIME) else None)\<rparr>)"
  using assms
proof (induction reqs arbitrary: st u)
  case Nil
  then show ?case by simp
next
  case (Cons x rest)
  obtain request body now where x: "x = (request, body, now)"
    by (cases x)
  let ?st1 = "snd (login_POST ev st request body now)"
  let ?u1 = "incrementLoginAttempts now u"
  have mail: "sanitizeEmail (login_email body) = e"
    using Cons.prems(4) x by simp
  have resp: "fst (login_POST ev st request body now) = invalid_credentials"
    using Cons.prems(5) unfolding x login_POST_seq_Cons by simp
  have "users ?st1 = (users st)(e \<mapsto> ?u1)"
    using login_POST_failed_verification [where st = st and body = body and u = u
        and ev = ev and request = request and now = now] Cons.prems(1) mail resp
    by simp
  then have st1: "users ?st1 e = Some ?u1"
    by simp
  show ?case
  proof (cases "rest = []")
    case True
    have "loginAttempts u + 1 \<le> 5"
      using Cons.prems(3) by simp
    then show ?thesis
      unfolding x login_POST_seq_Cons True
      using st1 incrementLoginAttempts_unlocked [OF Cons.prems(2), of now]
      by (auto simp add: Cons.prems(2))
  next
    case False
    then have small: "loginAttempts u + 1 < 5"
      using Cons.prems(3) by (cases rest) simp_all
    then have u1: "?u1 = u\<lparr>loginAttempts := loginAttempts u + 1\<rparr>"
      using incrementLoginAttempts_unlocked [OF Cons.prems(2), of now] by simp
    have lock1: "lockUntil ?u1 = None"
      unfolding u1 using Cons.prems(2) by simp
    have len1: "loginAttempts ?u1 + length rest \<le> 5"
      unfolding u1 using Cons.prems(3) by simp
    have mails: "\<forall>(request, body, now) \<in> set rest. sanitizeEmail (login_email body) = e"
      using Cons.prems(4) by simp
    have resps: "\<forall>r \<in> set (fst (login_POST_seq ev ?st1 rest)). r = invalid_credentials"
      using Cons.prems(5) unfolding x login_POST_seq_Cons by simp
    note ih = Cons.IH [of ?st1 ?u1, OF st1 lock1 len1 mails resps]
    show ?thesis
      unfolding x login_POST_seq_Cons
      using ih False by (simp add: u1)
  qed
qed

lemma sanitize_alice: "sanitizeEmail ''alice@example.com'' = ''alice@example.com''"
  by (simp add: sanitizeEmail_def toLowerCase_def trim_def is_space_def Let_def)

lemma five_failures_responses:
  "fst (login_POST_seq example_env example_state five_failures) =
     [invalid_credentials, invalid_credentials, invalid_credentials, invalid_credentials,
      invalid_credentials]"
  by code_simp

text \<open>
  Claim C1, as amended. Let an account have a counter of 0 and no lock, and let
  five login requests for its email each be answered 401 "Invalid email or
  password". Then the account has a counter of 5 and is locked until exactly
  2 hours after the fifth request: \<open>isLocked\<close> is true at every instant before
  that and false from then on. A further well-formed login request for the
  email before that instant, whatever its password and address, leaves the
  account as it is and is rejected: with 401 and the account-locked message
  when the login limiter admits it, with 429 when the limiter turns it away.
\<close>

theorem lockout_after_five_failures:
  assumes user: "users st e = Some u"
    and clean: "loginAttempts u = 0 \<and> lockUntil u = None"
    and five: "length reqs = 5"
    and mails: "\<forall>(request, body, now) \<in> set reqs. sanitizeEmail (login_email body) = e"
    and failed: "\<forall>r \<in> set (fst (login_POST_seq ev st reqs)). r = invalid_credentials"
  shows "\<exists>u5. users (snd (login_POST_seq ev st reqs)) e = Some u5
       \<and> loginAttempts u5 = 5
       \<and> lockUntil u5 = Some (snd (snd (last reqs)) + 2 * 60 * 60 * 1000)
       \<and> (\<forall>t. isLocked t u5 \<longleftrightarrow> t < snd (snd (last reqs)) + 2 * 60 * 60 * 1000)
       \<and> (\<forall>request body now.
             sanitizeEmail (login_email body) = e \<and> loginSchema ev body
             \<and> now < snd (snd (last reqs)) + 2 * 60 * 60 * 1000 \<longrightarrow>
               users (snd (login_POST ev (snd (login_POST_seq ev st reqs)) request body now))
                 = users (snd (login_POST_seq ev st reqs))
               \<and> (if fst (fst (checkLoginRateLimit
                          (loginAttempts_limiter (snd (login_POST_seq ev st reqs)))
                          (login_ip request) e now))
                  then fst (login_POST ev (snd (login_POST_seq ev st reqs)) request body now)
                         = account_locked
                  else status (fst (login_POST ev (snd (login_POST_seq ev st reqs)) request body now))
                         = 429))"
proof -
  let ?st5 = "snd (login_POST_seq ev st reqs)"
  let ?T = "snd (snd (last reqs)) + 2 * 60 * 60 * 1000"
  define u5 where "u5 = u\<lparr>loginAttempts := 5, lockUntil := Some ?T\<rparr>"
  have ne: "reqs \<noteq> []"
    using five by auto
  have "users ?st5 e =
     Some (u\<lparr>loginAttempts := loginAttempts u + length reqs,
              lockUntil := (if reqs \<noteq> [] \<and> loginAttempts u + length reqs = 5
                            then Some (snd (snd (last reqs)) + LOCK_TIME) else None)\<rparr>)"
    using login_POST_seq_failures [where st = st and e = e and u = u and reqs = reqs and ev = ev]
      user clean five mails failed by simp
  then have st5: "users ?st5 e = Some u5"
    using clean five ne by (simp add: u5_def LOCK_TIME_def)
  obtain request1 body1 now1 rest where reqs: "reqs = (request1, body1, now1) # rest"
    using ne by (cases reqs) auto
  have "fst (login_POST ev st request1 body1 now1) = invalid_credentials"
    using failed unfolding reqs login_POST_seq_Cons by simp
  moreover have "sanitizeEmail (login_email body1) = e"
    using mails unfolding reqs by simp
  ultimately have "\<not> oauth_without_password u"
    using login_POST_failed_verification [where st = st and body = body1 and u = u
        and ev = ev and request = request1 and now = now1] user by simp
  then have oauth5: "\<not> oauth_without_password u5"
    by (simp add: oauth_without_password_def no_password_def u5_def)
  have locked: "isLocked t u5 \<longleftrightarrow> t < ?T" for t
    by (simp add: isLocked_def u5_def)
  have sixth: "users (snd (login_POST ev ?st5 request body now)) = users ?st5
       \<and> (if fst (fst (checkLoginRateLimit (loginAttempts_limiter ?st5) (login_ip request) e now))
          then fst (login_POST ev ?st5 request body now) = account_locked
          else status (fst (login_POST ev ?st5 request body now)) = 429)"
    if "sanitizeEmail (login_email body) = e \<and> loginSchema ev body \<and> now < ?T"
    for request body now
    using login_POST_locked [where st = ?st5 and body = body and u = u5 and ev = ev
        and request = request and now = now] that st5 oauth5 locked [of now]
    by simp
  have main: "users ?st5 e = Some u5
       \<and> loginAttempts u5 = 5
       \<and> lockUntil u5 = Some ?T
       \<and> (\<forall>t. isLocked t u5 \<longleftrightarrow> t < ?T)
       \<and> (\<forall>request body now.
             sanitizeEmail (login_email body) = e \<and> loginSchema ev body \<and> now < ?T \<longrightarrow>
               users (snd (login_POST ev ?st5 request body now)) = users ?st5
               \<and> (if fst (fst (checkLoginRateLimit (loginAttempts_limiter ?st5)
                          (login_ip request) e now))
                  then fst (login_POST ev ?st5 request body now) = account_locked
                  else status (fst (login_POST ev ?st5 request body now)) = 429))"
  proof (intro conjI allI impI)
    show "users ?st5 e = Some u5" by (rule st5)
    show "loginAttempts u5 = 5" by (simp add: u5_def)
    show "lockUntil u5 = Some ?T" by (simp add: u5_def)
    show "isLocked t u5 \<longleftrightarrow> t < ?T" for t by (rule locked)
  next
    fix request body now
    assume h: "sanitizeEmail (login_email body) = e \<and> loginSchema ev body \<and> now < ?T"
    show "users (snd (login_POST ev ?st5 request body now)) = users ?st5"
      using sixth [OF h] by (rule conjunct1)
    show "if fst (fst (checkLoginRateLimit (loginAttempts_limiter ?st5)
                          (login_ip request) e now))
                  then fst (login_POST ev ?st5 request body now) = account_locked
                  else status (fst (login_POST ev ?st5 request body now)) = 429"
      using sixth [OF h] by (rule conjunct2)
  qed
  show ?thesis
    by (rule exI [of _ u5]) (rule main)
qed

theorem lockout_after_five_failures_witness:
  "fst (login_POST_seq example_env example_state five_failures) =
     [invalid_credentials, invalid_credentials, invalid_credentials, invalid_credentials,
      invalid_credentials]
   \<and> (\<exists>u5. users (snd (login_POST_seq example_env example_state five_failures))
               ''alice@example.com'' = Some u5
            \<and> loginAttempts u5 = 5 \<and> lockUntil u5 = Some 7215000)
   \<and> fst (login_POST example_env (snd (login_POST_seq example_env example_state five_failures))
        (request_from ''203.0.113.7'' ''/api/auth/login'')
        \<lparr>login_email = ''alice@example.com'', login_password = str ''Passw0rd!''\<rparr> 31000)
      = account_locked
   \<and> users (snd (login_POST example_env
        (snd (login_POST_seq example_env example_state five_failures))
        (request_from ''203.0.113.7'' ''/api/auth/login'')
        \<lparr>login_email = ''alice@example.com'', login_password = str ''Passw0rd!''\<rparr> 31000))
      = users (snd (login_POST_seq example_env example_state five_failures))"
proof -
  let ?e = "''alice@example.com''"
  let ?st5 = "snd (login_POST_seq example_env example_state five_failures)"
  let ?request = "request_from ''203.0.113.7'' ''/api/auth/login''"
  let ?body = "\<lparr>login_email = ?e, login_password = str ''Passw0rd!''\<rparr>"
  have user: "users example_state ?e = Some alice"
    by (simp add: example_state_def)
  have clean: "loginAttempts alice = 0 \<and> lockUntil alice = None"
    by (simp add: alice_def)
  have five: "length five_failures = 5"
    by (simp add: five_failures_def)
  have mails: "\<forall>(request, body, now) \<in> set five_failures. sanitizeEmail (login_email body) = ?e"
    by (simp add: five_failures_def login_attempt_def sanitize_alice)
  have failed: "\<forall>r \<in> set (fst (login_POST_seq example_env example_state five_failures)).
      r = invalid_credentials"
    unfolding five_failures_responses by simp
  have t5: "snd (snd (last five_failures)) + 2 * 60 * 60 * 1000 = 7215000"
    by (simp add: five_failures_def login_attempt_def)
  have schema: "loginSchema example_env ?body"
    by (simp add: loginSchema_def example_env_def str_def)
  have admitted: "fst (fst (checkLoginRateLimit (loginAttempts_limiter ?st5) (login_ip ?request)
      ?e 31000))"
    by code_simp
  from lockout_after_five_failures [OF user clean five mails failed, unfolded t5]
  obtain u5 where a: "users ?st5 ?e = Some u5" and b: "loginAttempts u5 = 5"
    and c: "lockUntil u5 = Some 7215000"
    and d: "\<forall>request body now.
             sanitizeEmail (login_email body) = ?e \<and> loginSchema example_env body
             \<and> now < 7215000 \<longrightarrow>
               users (snd (login_POST example_env ?st5 request body now)) = users ?st5
               \<and> (if fst (fst (checkLoginRateLimit (loginAttempts_limiter ?st5)
                          (login_ip request) ?e now))
                  then fst (login_POST example_env ?st5 request body now) = account_locked
                  else status (fst (login_POST example_env ?st5 request body now)) = 429)"
    by blast
  have "sanitizeEmail (login_email ?body) = ?e \<and> loginSchema example_env ?body
      \<and> (31000 :: int) < 7215000"
    using schema by (simp add: sanitize_alice)
  with d have "users (snd (login_POST example_env ?st5 ?request ?body 31000)) = users ?st5
      \<and> (if fst (fst (checkLoginRateLimit (loginAttempts_limiter ?st5) (login_ip ?request) ?e 31000))
         then fst (login_POST example_env ?st5 ?request ?body 31000) = account_locked
         else status (fst (login_POST example_env ?st5 ?request ?body 31000)) = 429)"
    by blast
  then have sixth: "users (snd (login_POST example_env ?st5 ?request ?body 31000)) = users ?st5"
    "fst (login_POST example_env ?st5 ?request ?body 31000) = account_locked"
    using admitted by simp_all
  have ex: "\<exists>u5. users ?st5 ?e = Some u5 \<and> loginAttempts u5 = 5 \<and> lockUntil u5 = Some 7215000"
    using a b c by blast
  show ?thesis
    using five_failures_responses ex sixth by (intro conjI)
qed

text \<open>
  The sixth attempt is not always answered 401: made with the right password
  one second after the fifth, from the same address, it is within the 16
  seconds of backoff and the limiter answers 429 before the account is looked
  at.
\<close>

theorem lockout_sixth_attempt_counterexample:
  "fst (login_POST_seq example_env example_state five_failures) =
     [invalid_credentials, invalid_credentials, invalid_credentials, invalid_credentials,
      invalid_credentials]
   \<and> status (fst (login_POST example_env
        (snd (login_POST_seq example_env example_state five_failures))
        (request_from ''203.0.113.7'' ''/api/auth/login'')
        \<lparr>login_email = ''alice@example.com'', login_password = str ''Passw0rd!''\<rparr> 16000))
      = 429"
  by code_simp

section \<open>Properties of the password policy\<close>

lemma score_criteria:
  "score (validatePasswordStrength pw) =
     (if commonPatterns pw then max 0 (criteria_met pw - 2) else criteria_met pw)"
  by (simp add: validatePasswordStrength_def criteria_met_def Let_def)

lemma isValid_score:
  "isValid (validatePasswordStrength pw) = (4 \<le> score (validatePasswordStrength pw))"
  by (simp add: validatePasswordStrength_def Let_def split: prod.splits)

lemma criteria_met_range: "0 \<le> criteria_met pw \<and> criteria_met pw \<le> 6"
  by (simp add: criteria_met_def of_bool_def)

text \<open>
  Claim C5, as amended. The score of \<open>validatePasswordStrength\<close> is the number of
  criteria met among length of 8 or more, length of 12 or more, a lowercase
  letter, an uppercase letter, a digit and a symbol, less 2 but not below 0
  when a common pattern matches; the common patterns are a leading \<^verbatim>\<open>123\<close>, the
  words \<^verbatim>\<open>password\<close> and \<^verbatim>\<open>qwerty\<close>, three or more equal characters in a row, and
  the sequence \<^verbatim>\<open>abc123\<close>. The score lies between 0 and 6, and the password is
  valid exactly when the score is 4 or more: with exactly 4 criteria and no
  common pattern it is valid, with 3 it is invalid, and with 4 criteria and a
  common pattern the score is 2 and it is invalid.
\<close>

theorem validatePasswordStrength_policy:
  "score (validatePasswordStrength pw) =
     (if commonPatterns pw then max 0 (criteria_met pw - 2) else criteria_met pw)
   \<and> 0 \<le> score (validatePasswordStrength pw) \<and> score (validatePasswordStrength pw) \<le> 6
   \<and> isValid (validatePasswordStrength pw) = (4 \<le> score (validatePasswordStrength pw))
   \<and> (criteria_met pw = 4 \<and> \<not> commonPatterns pw \<longrightarrow> isValid (validatePasswordStrength pw))
   \<and> (criteria_met pw = 3 \<longrightarrow> \<not> isValid (validatePasswordStrength pw))
   \<and> (criteria_met pw = 4 \<and> commonPatterns pw \<longrightarrow>
        score (validatePasswordStrength pw) = 2 \<and> \<not> isValid (validatePasswordStrength pw))
   \<and> (commonPatterns pw \<longleftrightarrow> spec_weak_pattern pw \<or> contains_ci ''abc123'' pw)"
proof -
  have range: "0 \<le> criteria_met pw" "criteria_met pw \<le> 6"
    using criteria_met_range [of pw] by simp_all
  have pat: "commonPatterns pw \<longleftrightarrow> spec_weak_pattern pw \<or> contains_ci ''abc123'' pw"
    by (auto simp add: commonPatterns_def spec_weak_pattern_def)
  show ?thesis
    unfolding isValid_score score_criteria using range pat by auto
qed

theorem validatePasswordStrength_policy_witness:
  "isValid (validatePasswordStrength (str ''Abcdefg1''))
   \<and> \<not> isValid (validatePasswordStrength (str ''abcdefg1''))
   \<and> score (validatePasswordStrength (str ''Password1'')) = 2
   \<and> \<not> isValid (validatePasswordStrength (str ''Password1''))"
proof -
  have a: "criteria_met (str ''Abcdefg1'') = 4 \<and> \<not> commonPatterns (str ''Abcdefg1'')"
    by code_simp
  have b: "criteria_met (str ''abcdefg1'') = 3"
    by code_simp
  have c: "criteria_met (str ''Password1'') = 4 \<and> commonPatterns (str ''Password1'')"
    by code_simp
  show ?thesis
    using validatePasswordStrength_policy [of "str ''Abcdefg1''"]
      validatePasswordStrength_policy [of "str ''abcdefg1''"]
      validatePasswordStrength_policy [of "str ''Password1''"] a b c
    by blast
qed

text \<open>
  With the patterns the claim lists, the password \<^verbatim>\<open>Zabc123!\<close> matches none and
  meets 5 criteria, so that the claim gives it the score 5 and makes it valid;
  the code finds \<^verbatim>\<open>abc123\<close> in it, scores it 3 and rejects it.
\<close>

theorem validatePasswordStrength_counterexample:
  "\<not> spec_weak_pattern (str ''Zabc123!'')
   \<and> criteria_met (str ''Zabc123!'') = 5
   \<and> spec_score (str ''Zabc123!'') = 5
   \<and> score (validatePasswordStrength (str ''Zabc123!'')) = 3
   \<and> \<not> isValid (validatePasswordStrength (str ''Zabc123!''))"
  by code_simp

section \<open>Properties of the authenticator and the middleware\<close>

lemma session_principal_Some_iff:
  "session_principal ev findOne request = Some p \<longleftrightarrow>
     (\<exists>tok mail dbUser. getToken ev request = Returns (Some tok) \<and> token_email tok = Some mail
        \<and> mail \<noteq> [] \<and> findOne mail = Returns (Some dbUser)
        \<and> p = \<lparr>userId = user_id dbUser, payload_email = email dbUser\<rparr>)"
  by (auto simp add: session_principal_def split: attempt.splits option.splits)

text \<open>
  Claim C2. \<open>authenticateRequest\<close> first asks for the session token; when that
  yields a token with a non-empty email and the store has an account for the
  email, the result is the principal made of the id and email of the stored
  account, with no error. In every other case (no token, an exception, no
  email, no account, a failing lookup) the result is that of the legacy path:
  the token is the text after \<^verbatim>\<open>Bearer \<close> of the \<^verbatim>\<open>authorization\<close> header when the
  header has that form, whatever the cookie holds, and else the non-empty
  \<^verbatim>\<open>token\<close> cookie; a missing or empty token gives no principal and the error
  "No authentication token provided", a token that does not verify gives no
  principal and "Invalid or expired token", and a verified one gives its
  payload. The principal is absent exactly when an error is reported.
\<close>

theorem authenticateRequest_resolution:
  "(\<forall>tok mail dbUser.
      getToken ev request = Returns (Some tok) \<and> token_email tok = Some mail \<and> mail \<noteq> []
      \<and> findOne mail = Returns (Some dbUser) \<longrightarrow>
      authenticateRequest ev findOne request =
        (Some \<lparr>userId = user_id dbUser, payload_email = email dbUser\<rparr>, None))
   \<and> (\<not> (\<exists>tok mail dbUser.
          getToken ev request = Returns (Some tok) \<and> token_email tok = Some mail \<and> mail \<noteq> []
          \<and> findOne mail = Returns (Some dbUser)) \<longrightarrow>
      authenticateRequest ev findOne request =
        (case getTokenFromRequest request of
           None \<Rightarrow> (None, Some ''No authentication token provided'')
         | Some t \<Rightarrow>
             if t = [] then (None, Some ''No authentication token provided'')
             else (case verifyToken ev t of
                     None \<Rightarrow> (None, Some ''Invalid or expired token'')
                   | Some decoded \<Rightarrow> (Some decoded, None))))
   \<and> (\<forall>h. authorization request = Some h \<and> prefix ''Bearer '' h \<longrightarrow>
        getTokenFromRequest request = Some (drop 7 h))
   \<and> ((\<forall>h. authorization request = Some h \<longrightarrow> \<not> prefix ''Bearer '' h) \<longrightarrow>
        getTokenFromRequest request =
          (case token_cookie request of None \<Rightarrow> None | Some v \<Rightarrow> if v = [] then None else Some v))
   \<and> (fst (authenticateRequest ev findOne request) = None
        \<longleftrightarrow> snd (authenticateRequest ev findOne request) \<noteq> None)"
proof (intro conjI)
  show "\<forall>tok mail dbUser.
      getToken ev request = Returns (Some tok) \<and> token_email tok = Some mail \<and> mail \<noteq> []
      \<and> findOne mail = Returns (Some dbUser) \<longrightarrow>
      authenticateRequest ev findOne request =
        (Some \<lparr>userId = user_id dbUser, payload_email = email dbUser\<rparr>, None)"
    by (simp add: authenticateRequest_def session_principal_def)
next
  show "\<not> (\<exists>tok mail dbUser.
          getToken ev request = Returns (Some tok) \<and> token_email tok = Some mail \<and> mail \<noteq> []
          \<and> findOne mail = Returns (Some dbUser)) \<longrightarrow>
      authenticateRequest ev findOne request =
        (case getTokenFromRequest request of
           None \<Rightarrow> (None, Some ''No authentication token provided'')
         | Some t \<Rightarrow>
             if t = [] then (None, Some ''No authentication token provided'')
             else (case verifyToken ev t of
                     None \<Rightarrow> (None, Some ''Invalid or expired token'')
                   | Some decoded \<Rightarrow> (Some decoded, None)))"
  proof
    assume "\<not> (\<exists>tok mail dbUser.
          getToken ev request = Returns (Some tok) \<and> token_email tok = Some mail \<and> mail \<noteq> []
          \<and> findOne mail = Returns (Some dbUser))"
    then have "session_principal ev findOne request \<noteq> Some p" for p
      unfolding session_principal_Some_iff by blast
    then have "session_principal ev findOne request = None"
      using not_Some_eq by blast
    then show "authenticateRequest ev findOne request =
        (case getTokenFromRequest request of
           None \<Rightarrow> (None, Some ''No authentication token provided'')
         | Some t \<Rightarrow>
             if t = [] then (None, Some ''No authentication token provided'')
             else (case verifyToken ev t of
                     None \<Rightarrow> (None, Some ''Invalid or expired token'')
                   | Some decoded \<Rightarrow> (Some decoded, None)))"
      by (simp add: authenticateRequest_def)
  qed
next
  show "\<forall>h. authorization request = Some h \<and> prefix ''Bearer '' h \<longrightarrow>
        getTokenFromRequest request = Some (drop 7 h)"
    by (simp add: getTokenFromRequest_def)
next
  show "(\<forall>h. authorization request = Some h \<longrightarrow> \<not> prefix ''Bearer '' h) \<longrightarrow>
        getTokenFromRequest request =
          (case token_cookie request of None \<Rightarrow> None | Some v \<Rightarrow> if v = [] then None else Some v)"
    by (simp add: getTokenFromRequest_def split: option.splits)
next
  show "fst (authenticateRequest ev findOne request) = None
        \<longleftrightarrow> snd (authenticateRequest ev findOne request) \<noteq> None"
    by (simp add: authenticateRequest_def split: option.splits)
qed

theorem authenticateRequest_resolution_witness:
  "authenticateRequest example_env (store_findOne example_state)
      \<lparr>x_forwarded_for = None, authorization = Some ''Bearer u9:mallory@example.com'',
       token_cookie = None, session_cookie = Some ''alice@example.com'',
       pathname = ''/api/tasks''\<rparr>
     = (Some \<lparr>userId = ''u1'', payload_email = ''alice@example.com''\<rparr>, None)
   \<and> authenticateRequest example_env (store_findOne example_state)
      \<lparr>x_forwarded_for = None, authorization = Some ''Bearer u1:alice@example.com'',
       token_cookie = Some ''garbage'', session_cookie = None, pathname = ''/api/tasks''\<rparr>
     = (Some \<lparr>userId = ''u1'', payload_email = ''alice@example.com''\<rparr>, None)
   \<and> authenticateRequest example_env (store_findOne example_state)
      \<lparr>x_forwarded_for = None, authorization = None,
       token_cookie = Some ''garbage'', session_cookie = None, pathname = ''/api/tasks''\<rparr>
     = (None, Some ''Invalid or expired token'')
   \<and> authenticateRequest example_env (store_findOne example_state)
      \<lparr>x_forwarded_for = None, authorization = None,
       token_cookie = None, session_cookie = None, pathname = ''/api/tasks''\<rparr>
     = (None, Some ''No authentication token provided'')"
proof -
  let ?r1 = "\<lparr>x_forwarded_for = None, authorization = Some ''Bearer u9:mallory@example.com'',
       token_cookie = None, session_cookie = Some ''alice@example.com'',
       pathname = ''/api/tasks''\<rparr>"
  let ?r2 = "\<lparr>x_forwarded_for = None, authorization = Some ''Bearer u1:alice@example.com'',
       token_cookie = Some ''garbage'', session_cookie = None, pathname = ''/api/tasks''\<rparr>"
  let ?r3 = "\<lparr>x_forwarded_for = None, authorization = None,
       token_cookie = Some ''garbage'', session_cookie = None, pathname = ''/api/tasks''\<rparr>"
  let ?r4 = "\<lparr>x_forwarded_for = None, authorization = None,
       token_cookie = None, session_cookie = None, pathname = ''/api/tasks''\<rparr>"
  let ?f = "store_findOne example_state"
  have s1: "getToken example_env ?r1 = Returns (Some \<lparr>token_email = Some ''alice@example.com''\<rparr>)
      \<and> token_email \<lparr>token_email = Some ''alice@example.com''\<rparr> = Some ''alice@example.com''
      \<and> ''alice@example.com'' \<noteq> []
      \<and> ?f ''alice@example.com'' = Returns (Some alice)"
    by (simp add: example_env_def store_findOne_def example_state_def)
  have a: "authenticateRequest example_env ?f ?r1
      = (Some \<lparr>userId = ''u1'', payload_email = ''alice@example.com''\<rparr>, None)"
    using authenticateRequest_resolution [of example_env ?r1 ?f] s1
    by (auto simp add: alice_def)
  have none: "\<not> (\<exists>tok mail dbUser.
          getToken example_env r = Returns (Some tok) \<and> token_email tok = Some mail \<and> mail \<noteq> []
          \<and> ?f mail = Returns (Some dbUser))" if "session_cookie r = None" for r
    using that by (simp add: example_env_def)
  have b: "authenticateRequest example_env ?f ?r2
      = (Some \<lparr>userId = ''u1'', payload_email = ''alice@example.com''\<rparr>, None)"
    using authenticateRequest_resolution [of example_env ?r2 ?f] none [of ?r2]
    by (simp add: example_env_def)
  have c: "authenticateRequest example_env ?f ?r3 = (None, Some ''Invalid or expired token'')"
    using authenticateRequest_resolution [of example_env ?r3 ?f] none [of ?r3]
    by (simp add: example_env_def)
  have d: "authenticateRequest example_env ?f ?r4 = (None, Some ''No authentication token provided'')"
    using authenticateRequest_resolution [of example_env ?r4 ?f] none [of ?r4]
    by simp
  from a b c d show ?thesis
    by (intro conjI)
qed

text \<open>
  Claim C10. The middleware takes a request as authenticated when the session
  token decodes or when the \<^verbatim>\<open>token\<close> cookie is non-empty, and never verifies
  the cookie: its result does not depend on \<open>verifyToken\<close>. So for a request
  with any non-empty \<^verbatim>\<open>token\<close> cookie, a path under \<^verbatim>\<open>/dashboard\<close> is never
  redirected to the login page and is let through, and a path under
  \<^verbatim>\<open>/auth/login\<close> or \<^verbatim>\<open>/auth/register\<close> is redirected to \<^verbatim>\<open>/dashboard\<close> (whenever
  the session library returns rather than throws).
\<close>

theorem middleware_trusts_token_cookie:
  "(isAuthenticated tok request \<longleftrightarrow>
      tok \<noteq> None \<or> (\<exists>v. token_cookie request = Some v \<and> v \<noteq> []))
   \<and> (\<forall>v. token_cookie request = Some v \<and> v \<noteq> [] \<longrightarrow>
        (prefix ''/dashboard'' (pathname request) \<longrightarrow>
           (\<forall>callback. middleware ev request \<noteq> Returns (Redirect ''/auth/login'' callback))
           \<and> (getToken ev request \<noteq> Throws \<longrightarrow> middleware ev request = Returns Next))
        \<and> ((prefix ''/auth/login'' (pathname request) \<or> prefix ''/auth/register'' (pathname request))
             \<and> getToken ev request \<noteq> Throws \<longrightarrow>
           middleware ev request = Returns (Redirect ''/dashboard'' None)))
   \<and> middleware (ev\<lparr>verifyToken := any_check\<rparr>) request = middleware ev request"
proof (intro conjI allI impI)
  show "isAuthenticated tok request \<longleftrightarrow>
      tok \<noteq> None \<or> (\<exists>v. token_cookie request = Some v \<and> v \<noteq> [])"
    by (auto simp add: isAuthenticated_def split: option.splits)
next
  fix v callback
  assume c: "token_cookie request = Some v \<and> v \<noteq> []"
    and p: "prefix ''/dashboard'' (pathname request)"
  have auth: "isAuthenticated t request" for t
    using c by (simp add: isAuthenticated_def)
  show "middleware ev request \<noteq> Returns (Redirect ''/auth/login'' callback)"
    using auth by (auto simp add: middleware_def Let_def split: attempt.splits)
next
  fix v
  assume c: "token_cookie request = Some v \<and> v \<noteq> []"
    and p: "prefix ''/dashboard'' (pathname request)"
    and g: "getToken ev request \<noteq> Throws"
  have auth: "isAuthenticated t request" for t
    using c by (simp add: isAuthenticated_def)
  have a: "\<not> prefix ''/auth/login'' (pathname request)"
    and r: "\<not> prefix ''/auth/register'' (pathname request)"
    using p by (auto simp add: prefix_def)
  show "middleware ev request = Returns Next"
    using auth g a r
    by (cases "getToken ev request") (simp_all add: middleware_def Let_def authPaths_def)
next
  fix v
  assume c: "token_cookie request = Some v \<and> v \<noteq> []"
    and p: "(prefix ''/auth/login'' (pathname request) \<or> prefix ''/auth/register'' (pathname request))
             \<and> getToken ev request \<noteq> Throws"
  have auth: "isAuthenticated t request" for t
    using c by (simp add: isAuthenticated_def)
  show "middleware ev request = Returns (Redirect ''/dashboard'' None)"
    using auth p
    by (cases "getToken ev request") (auto simp add: middleware_def Let_def authPaths_def)
next
  show "middleware (ev\<lparr>verifyToken := any_check\<rparr>) request = middleware ev request"
    by (simp add: middleware_def)
qed

theorem middleware_trusts_token_cookie_witness:
  "middleware example_env
      \<lparr>x_forwarded_for = None, authorization = None, token_cookie = Some ''expired-or-forged'',
       session_cookie = None, pathname = ''/dashboard/settings''\<rparr> = Returns Next
   \<and> middleware example_env
      \<lparr>x_forwarded_for = None, authorization = None, token_cookie = Some ''expired-or-forged'',
       session_cookie = None, pathname = ''/auth/login''\<rparr> = Returns (Redirect ''/dashboard'' None)
   \<and> verifyToken example_env ''expired-or-forged'' = None"
proof -
  let ?r1 = "\<lparr>x_forwarded_for = None, authorization = None,
       token_cookie = Some ''expired-or-forged'',
       session_cookie = None, pathname = ''/dashboard/settings''\<rparr>"
  let ?r2 = "\<lparr>x_forwarded_for = None, authorization = None,
       token_cookie = Some ''expired-or-forged'',
       session_cookie = None, pathname = ''/auth/login''\<rparr>"
  have g: "getToken example_env r \<noteq> Throws" for r
    by (simp add: example_env_def)
  have a: "middleware example_env ?r1 = Returns Next"
    using middleware_trusts_token_cookie [of None ?r1 example_env] g [of ?r1] by simp
  have b: "middleware example_env ?r2 = Returns (Redirect ''/dashboard'' None)"
    using middleware_trusts_token_cookie [of None ?r2 example_env] g [of ?r2] by simp
  have c: "verifyToken example_env ''expired-or-forged'' = None"
    by (simp add: example_env_def)
  from a b c show ?thesis
    by (intro conjI)
qed

section \<open>Properties of the legacy token\<close>

lemma flip_bit_changes: "i < length bits \<Longrightarrow> flip_bit i bits \<noteq> bits"
proof
  assume i: "i < length bits" and eq: "flip_bit i bits = bits"
  have "flip_bit i bits ! i = (\<not> bits ! i)"
    using i by (simp add: flip_bit_def)
  with eq show False
    by simp
qed

lemma verify_other_payload:
  "p \<noteq> signed_payload (issue secret cd now uid mail) \<Longrightarrow>
   verify secret cd now' ((issue secret cd now uid mail)\<lparr>signed_payload := p\<rparr>) = None"
  by (auto simp add: verify_def issue_def Let_def)

text \<open>
  Claim C8, on the token as modelled from the specification. With a
  serialisation that reads back the payload it wrote, the token issued for a
  user id and an email verifies to that pair at every instant before the
  expiry, 7 days after issue, and is invalid at every instant after it; it is
  invalid with any one bit of its signed payload inverted, and under any other
  secret.
\<close>

theorem token_round_trip:
  assumes codec: "decode cd (encode cd \<lparr>claim_userId = uid, claim_email = mail, issuedAt = now,
                     expiry = now + 7 * 24 * 60 * 60\<rparr>)
                  = Some \<lparr>claim_userId = uid, claim_email = mail, issuedAt = now,
                     expiry = now + 7 * 24 * 60 * 60\<rparr>"
  shows "(now' < now + 7 * 24 * 60 * 60 \<longrightarrow>
            verify secret cd now' (issue secret cd now uid mail) = Some (uid, mail))
       \<and> (now + 7 * 24 * 60 * 60 < now' \<longrightarrow>
            verify secret cd now' (issue secret cd now uid mail) = None)
       \<and> (\<forall>i. i < length (signed_payload (issue secret cd now uid mail)) \<longrightarrow>
            verify secret cd now'
              ((issue secret cd now uid mail)
                 \<lparr>signed_payload := flip_bit i (signed_payload (issue secret cd now uid mail))\<rparr>)
            = None)
       \<and> (\<forall>other. other \<noteq> secret \<longrightarrow>
            verify other cd now' (issue secret cd now uid mail) = None)"
proof (intro conjI allI impI)
  assume "now' < now + 7 * 24 * 60 * 60"
  then show "verify secret cd now' (issue secret cd now uid mail) = Some (uid, mail)"
    using codec by (simp add: verify_def issue_def Let_def TOKEN_LIFETIME_def)
next
  assume "now + 7 * 24 * 60 * 60 < now'"
  then show "verify secret cd now' (issue secret cd now uid mail) = None"
    using codec by (simp add: verify_def issue_def Let_def TOKEN_LIFETIME_def)
next
  fix i
  assume "i < length (signed_payload (issue secret cd now uid mail))"
  then have "flip_bit i (signed_payload (issue secret cd now uid mail))
      \<noteq> signed_payload (issue secret cd now uid mail)"
    by (rule flip_bit_changes)
  then show "verify secret cd now'
              ((issue secret cd now uid mail)
                 \<lparr>signed_payload := flip_bit i (signed_payload (issue secret cd now uid mail))\<rparr>)
            = None"
    by (rule verify_other_payload)
next
  fix other
  assume "other \<noteq> secret"
  then show "verify other cd now' (issue secret cd now uid mail) = None"
    by (simp add: verify_def issue_def Let_def)
qed

theorem token_round_trip_witness:
  "verify ''secret'' example_codec 604799 (issue ''secret'' example_codec 0 ''u1'' ''alice@example.com'')
     = Some (''u1'', ''alice@example.com'')
   \<and> verify ''secret'' example_codec 604801 (issue ''secret'' example_codec 0 ''u1'' ''alice@example.com'')
     = None
   \<and> verify ''secret'' example_codec 100
       ((issue ''secret'' example_codec 0 ''u1'' ''alice@example.com'')
          \<lparr>signed_payload := flip_bit 2
             (signed_payload (issue ''secret'' example_codec 0 ''u1'' ''alice@example.com''))\<rparr>)
     = None"
proof -
  have codec: "decode example_codec (encode example_codec
      \<lparr>claim_userId = ''u1'', claim_email = ''alice@example.com'', issuedAt = 0,
       expiry = 0 + 7 * 24 * 60 * 60\<rparr>)
    = Some \<lparr>claim_userId = ''u1'', claim_email = ''alice@example.com'', issuedAt = 0,
       expiry = 0 + 7 * 24 * 60 * 60\<rparr>"
    by (simp add: example_codec_def example_claims_def)
  have len: "2 < length (signed_payload (issue ''secret'' example_codec 0 ''u1'' ''alice@example.com''))"
    by (simp add: issue_def example_codec_def Let_def)
  note t1 = token_round_trip [OF codec, of 604799 "''secret''"]
  note t2 = token_round_trip [OF codec, of 604801 "''secret''"]
  note t3 = token_round_trip [OF codec, of 100 "''secret''"]
  have a: "verify ''secret'' example_codec 604799
      (issue ''secret'' example_codec 0 ''u1'' ''alice@example.com'') = Some (''u1'', ''alice@example.com'')"
    using t1 by simp
  have b: "verify ''secret'' example_codec 604801
      (issue ''secret'' example_codec 0 ''u1'' ''alice@example.com'') = None"
    using t2 by simp
  have c: "verify ''secret'' example_codec 100
       ((issue ''secret'' example_codec 0 ''u1'' ''alice@example.com'')
          \<lparr>signed_payload := flip_bit 2
             (signed_payload (issue ''secret'' example_codec 0 ''u1'' ''alice@example.com''))\<rparr>)
     = None"
    using t3 len by blast
  from a b c show ?thesis
    by (intro conjI)
qed

section \<open>Properties of the register handler\<close>






end
